theory Spec2Isabelle
  imports Main "HOL-Library.Word"
begin

section \<open>JavaScript strings\<close>

text \<open>
  A JavaScript string is modelled as a \<^typ>\<open>string\<close>; a character stands for the code
  unit of the same number, so the model covers the code units below 256.
  \<open>\s\<close> in a regular expression and \<open>String.prototype.trim\<close> use the same class of
  white space: TAB, LF, VT, FF, CR, SPACE and NBSP in this range.
\<close>

definition is_space :: "char \<Rightarrow> bool" where
  "is_space c = (c \<in> set [CHR 0x09, CHR 0x0A, CHR 0x0B, CHR 0x0C, CHR 0x0D, CHR 0x20, CHR 0xA0])"

definition is_upper :: "char \<Rightarrow> bool" where
  "is_upper c = (65 \<le> (of_char c :: nat) \<and> (of_char c :: nat) \<le> 90)"

definition is_lower :: "char \<Rightarrow> bool" where
  "is_lower c = (97 \<le> (of_char c :: nat) \<and> (of_char c :: nat) \<le> 122)"

definition is_digit :: "char \<Rightarrow> bool" where
  "is_digit c = (48 \<le> (of_char c :: nat) \<and> (of_char c :: nat) \<le> 57)"

text \<open>\<open>[.!?]\<close>\<close>

definition is_stop :: "char \<Rightarrow> bool" where
  "is_stop c = (c = CHR ''.'' \<or> c = CHR ''!'' \<or> c = CHR ''?'')"

text \<open>\<open>s.trim()\<close>\<close>

definition trim :: "string \<Rightarrow> string" where
  "trim s = rev (dropWhile is_space (rev (dropWhile is_space s)))"

text \<open>\<open>s.startsWith(p)\<close>\<close>

definition startsWith :: "string \<Rightarrow> string \<Rightarrow> bool" where
  "startsWith s p = (take (length p) s = p)"

text \<open>\<open>s.split(c)\<close> for a separator of one character: the result is never empty.\<close>

fun split :: "char \<Rightarrow> string \<Rightarrow> string list" where
  "split c [] = [[]]"
| "split c (x # xs) =
     (if x = c then [] # split c xs
      else (case split c xs of [] \<Rightarrow> [[x]] | p # ps \<Rightarrow> (x # p) # ps))"

text \<open>\<open>parts.join(sep)\<close>\<close>

fun join :: "string \<Rightarrow> string list \<Rightarrow> string" where
  "join sep [] = []"
| "join sep [p] = p"
| "join sep (p # q # ps) = p @ sep @ join sep (q # ps)"

text \<open>\<open>s.substring(0, n)\<close>\<close>

definition substring0 :: "nat \<Rightarrow> string \<Rightarrow> string" where
  "substring0 n s = take n s"

section \<open>Errors, the outside world and asynchronous functions\<close>

text \<open>
  A thrown value is an \<open>Error\<close> or a \<open>TypeError\<close> with its message.
\<close>

datatype js_error = Error string | TypeError string

fun message :: "js_error \<Rightarrow> string" where
  "message (Error m) = m"
| "message (TypeError m) = m"

type_synonym bytes = "8 word list"

text \<open>
  What the process does to the outside is recorded in order: a GET request for a page,
  a timer delay in milliseconds, a request to the text generation endpoint with its
  prompt, a request to the speech endpoint with its voice and its text.
\<close>

datatype event =
    HttpGet string
  | Sleep nat
  | GeminiPost string
  | TtsPost string string

text \<open>
  The world of a request: the state of the remote services (of a type the model does not
  fix), the files of the scratch directory, and the record of events.
\<close>

record 'n world =
  net :: 'n
  files :: "string \<Rightarrow> bytes option"
  events :: "event list"

text \<open>
  An \<open>async\<close> function takes the world and returns a value or a thrown error, and the
  world after it. Console output is left out. A remote call may fail or succeed in any
  way its collaborator decides; writing a scratch file always succeeds, reading or
  removing one fails only when the file is missing.
\<close>

type_synonym ('a, 'n) js = "'n world \<Rightarrow> (js_error + 'a) \<times> 'n world"

definition js_return :: "'a \<Rightarrow> ('a, 'n) js" where
  "js_return x = (\<lambda>w. (Inr x, w))"

definition js_throw :: "js_error \<Rightarrow> ('a, 'n) js" where
  "js_throw e = (\<lambda>w. (Inl e, w))"

definition js_bind :: "('a, 'n) js \<Rightarrow> ('a \<Rightarrow> ('b, 'n) js) \<Rightarrow> ('b, 'n) js" where
  "js_bind m f = (\<lambda>w. case m w of (Inl e, w') \<Rightarrow> (Inl e, w') | (Inr x, w') \<Rightarrow> f x w')"

text \<open>\<open>try { m } catch (error) { h error }\<close>\<close>

definition js_try :: "('a, 'n) js \<Rightarrow> (js_error \<Rightarrow> ('a, 'n) js) \<Rightarrow> ('a, 'n) js" where
  "js_try m h = (\<lambda>w. case m w of (Inl e, w') \<Rightarrow> h e w' | (Inr x, w') \<Rightarrow> (Inr x, w'))"

definition emit :: "event \<Rightarrow> (unit, 'n) js" where
  "emit ev = (\<lambda>w. (Inr (), w\<lparr>events := events w @ [ev]\<rparr>))"

text \<open>A call of a remote service: it reads and changes the state of the services only.\<close>

definition remote :: "('n \<Rightarrow> (js_error + 'a) \<times> 'n) \<Rightarrow> ('a, 'n) js" where
  "remote f = (\<lambda>w. case f (net w) of (r, n') \<Rightarrow> (r, w\<lparr>net := n'\<rparr>))"

text \<open>
  The body of a text generation response, as the code reads it: \<open>Malformed\<close> when
  \<open>data\<close>, \<open>data.candidates\<close> or \<open>data.candidates[0]\<close> is missing; \<open>Candidate t\<close> when
  the first candidate has the string \<open>t\<close> at \<open>content.parts[0].text\<close>; \<open>Unreadable m\<close> when
  evaluating \<open>content.parts[0].text.trim()\<close> on the first candidate throws, with the
  message \<open>m\<close> of the \<open>TypeError\<close> the runtime gives (it names the property that could
  not be read, as in \<open>Cannot read properties of undefined (reading 'parts')\<close>).
\<close>

datatype gemini_data = Malformed | Unreadable string | Candidate string

text \<open>
  The collaborators of the pipeline: the HTTP client on a page (the body of the response
  or the error of the request), the text generation endpoint on a prompt, the speech
  endpoint on a voice and a text, the HTML library and the locale's rendering of a date.
  Of the HTML library: \<open>cheerio.load\<close>; the number of elements a selector matches in a
  document; the document after removing the non-content elements below the elements of
  a selector; the text of these elements once their non-content elements are removed
  (the selection is taken before the removal); the text of a selector.
\<close>

record ('n, 'd) env =
  http_get :: "string \<Rightarrow> 'n \<Rightarrow> (js_error + string) \<times> 'n"
  gemini_post :: "string \<Rightarrow> 'n \<Rightarrow> (js_error + gemini_data) \<times> 'n"
  tts_post :: "string \<Rightarrow> string \<Rightarrow> 'n \<Rightarrow> (js_error + bytes) \<times> 'n"
  cheerio_load :: "string \<Rightarrow> 'd"
  sel_length :: "'d \<Rightarrow> string \<Rightarrow> nat"
  sel_remove_noise :: "'d \<Rightarrow> string \<Rightarrow> 'd"
  sel_content_text :: "'d \<Rightarrow> string \<Rightarrow> string"
  sel_text :: "'d \<Rightarrow> string \<Rightarrow> string"
  toLocaleDateString :: "int \<Rightarrow> string"

section \<open>Speech synthesis\<close>

subsection \<open>The reformatting of a line before synthesis\<close>

text \<open>\<open>.replace(/([.!?])\s+/g, '$1\n')\<close>\<close>

function stop_spaces_to_newline :: "string \<Rightarrow> string" where
  "stop_spaces_to_newline [] = []"
| "stop_spaces_to_newline (c # cs) =
     (if is_stop c \<and> takeWhile is_space cs \<noteq> []
      then c # CHR 0x0A # stop_spaces_to_newline (dropWhile is_space cs)
      else c # stop_spaces_to_newline cs)"
  by pat_completeness auto
termination
  by (relation "measure length") (auto simp: le_imp_less_Suc length_dropWhile_le)

text \<open>\<open>.replace(/([.!?])\n/g, '$1\n\n')\<close>\<close>

fun stop_newline_doubled :: "string \<Rightarrow> string" where
  "stop_newline_doubled [] = []"
| "stop_newline_doubled [c] = [c]"
| "stop_newline_doubled (c # d # cs) =
     (if is_stop c \<and> d = CHR 0x0A
      then c # CHR 0x0A # CHR 0x0A # stop_newline_doubled cs
      else c # stop_newline_doubled (d # cs))"

text \<open>
  A match of \<open>[A-Z][a-z]+:\<close> at the head of a string: the name and the rest after the
  colon.
\<close>

definition name_colon :: "string \<Rightarrow> (string \<times> string) option" where
  "name_colon s =
     (case s of
        [] \<Rightarrow> None
      | c # cs \<Rightarrow>
          (if is_upper c \<and> takeWhile is_lower cs \<noteq> []
           then (case dropWhile is_lower cs of
                   [] \<Rightarrow> None
                 | k # rest \<Rightarrow> if k = CHR '':'' then Some (c # takeWhile is_lower cs, rest) else None)
           else None))"

text \<open>\<open>.replace(/([A-Z][a-z]+):/g, '$1,')\<close>\<close>

function name_colon_to_comma :: "string \<Rightarrow> string" where
  "name_colon_to_comma [] = []"
| "name_colon_to_comma (c # cs) =
     (case name_colon (c # cs) of
        Some (name, rest) \<Rightarrow> name @ CHR '','' # name_colon_to_comma rest
      | None \<Rightarrow> c # name_colon_to_comma cs)"
  by pat_completeness auto
termination
proof (relation "measure length")
  fix c cs x2 name rest
  assume "name_colon (c # cs) = Some x2" and "(name, rest) = x2"
  then have "name_colon (c # cs) = Some (name, rest)" by simp
  then have "dropWhile is_lower cs = CHR '':'' # rest"
    by (auto simp: name_colon_def split: if_splits list.splits)
  then have "length rest < length (dropWhile is_lower cs)" by simp
  also have "\<dots> \<le> length cs" by (rule length_dropWhile_le)
  finally show "(rest, c # cs) \<in> measure length" by simp
qed simp_all

text \<open>\<open>.replace(/\s+/g, ' ')\<close>\<close>

function collapse_spaces :: "string \<Rightarrow> string" where
  "collapse_spaces [] = []"
| "collapse_spaces (c # cs) =
     (if is_space c then CHR '' '' # collapse_spaces (dropWhile is_space cs)
      else c # collapse_spaces cs)"
  by pat_completeness auto
termination
  by (relation "measure length") (auto simp: le_imp_less_Suc length_dropWhile_le)

text \<open>\<open>.replace(/([.!?])\s*([A-Z])/g, '$1\n\n$2')\<close>\<close>

function stop_upper_paragraph :: "string \<Rightarrow> string" where
  "stop_upper_paragraph [] = []"
| "stop_upper_paragraph (c # cs) =
     (if is_stop c
      then (case dropWhile is_space cs of
              [] \<Rightarrow> c # stop_upper_paragraph cs
            | u # rest \<Rightarrow>
                if is_upper u then c # CHR 0x0A # CHR 0x0A # u # stop_upper_paragraph rest
                else c # stop_upper_paragraph cs)
      else c # stop_upper_paragraph cs)"
  by pat_completeness auto
termination
proof (relation "measure length")
  fix c u :: char and cs rest :: string
  assume "dropWhile is_space cs = u # rest"
  then have "length rest < length (dropWhile is_space cs)" by simp
  also have "\<dots> \<le> length cs" by (rule length_dropWhile_le)
  finally show "(rest, c # cs) \<in> measure length" by simp
qed simp_all

text \<open>\<open>.replace(/([^.!?])\s*([A-Z][a-z]+:)/g, '$1\n$2')\<close>\<close>

function name_on_new_line :: "string \<Rightarrow> string" where
  "name_on_new_line [] = []"
| "name_on_new_line (c # cs) =
     (if \<not> is_stop c
      then (case name_colon (dropWhile is_space cs) of
              Some (name, rest) \<Rightarrow> c # CHR 0x0A # name @ CHR '':'' # name_on_new_line rest
            | None \<Rightarrow> c # name_on_new_line cs)
      else c # name_on_new_line cs)"
  by pat_completeness auto
termination
proof (relation "measure length")
  fix c cs x2 name rest
  assume "name_colon (dropWhile is_space cs) = Some x2" and "(name, rest) = x2"
  then have "name_colon (dropWhile is_space cs) = Some (name, rest)" by simp
  then obtain u us where u: "dropWhile is_space cs = u # us"
    and r: "dropWhile is_lower us = CHR '':'' # rest"
    by (auto simp: name_colon_def split: if_splits list.splits)
  have "length rest < length (dropWhile is_lower us)" using r by simp
  also have "\<dots> \<le> length us" by (rule length_dropWhile_le)
  also have "\<dots> < length (dropWhile is_space cs)" using u by simp
  also have "\<dots> \<le> length cs" by (rule length_dropWhile_le)
  finally show "(rest, c # cs) \<in> measure length" by simp
qed simp_all

definition formatText :: "string \<Rightarrow> string" where
  "formatText text =
     trim (name_on_new_line (stop_upper_paragraph (collapse_spaces
       (name_colon_to_comma (stop_newline_doubled (stop_spaces_to_newline text))))))"

subsection \<open>\<open>generateSpeech\<close>\<close>

definition voiceId :: "bool \<Rightarrow> string" where
  "voiceId isAlex = (if isAlex then ''EXAVITQu4vr4xnSDxMaL'' else ''21m00Tcm4TlvDq8ikWAM'')"

definition generateSpeech :: "('n, 'd) env \<Rightarrow> string \<Rightarrow> bool \<Rightarrow> (bytes, 'n) js" where
  "generateSpeech E text isAlex =
     js_try
       (js_bind (emit (TtsPost (voiceId isAlex) (formatText text)))
          (\<lambda>_. remote (tts_post E (voiceId isAlex) (formatText text))))
       (\<lambda>error. js_throw error)"

subsection \<open>\<open>generatePodcastAudio\<close>\<close>

text \<open>
  \<open>line.split(':')[1].trim()\<close>: the second part of the line, trimmed; without a second
  part the index gives \<open>undefined\<close> and \<open>.trim()\<close> throws a \<open>TypeError\<close>.
\<close>

definition line_text :: "string \<Rightarrow> js_error + string" where
  "line_text line =
     (case split CHR '':'' line of
        _ # t # _ \<Rightarrow> Inr (trim t)
      | _ \<Rightarrow> Inl (TypeError ''Cannot read properties of undefined (reading 'trim')''))"

text \<open>
  The body of the loop over the lines, on the buffers collected so far. The error of
  the speech call is caught inside the loop; the error of \<open>line_text\<close> is not.
\<close>

definition speech_step :: "('n, 'd) env \<Rightarrow> string \<Rightarrow> bytes list \<Rightarrow> (bytes list, 'n) js" where
  "speech_step E line audioBuffers =
     (if trim line \<noteq> []
      then (let isAlex = startsWith line ''Alex:'' in
            case line_text line of
              Inl e \<Rightarrow> js_throw e
            | Inr text \<Rightarrow>
                js_try
                  (js_bind (generateSpeech E text isAlex)
                     (\<lambda>audio. js_return (audioBuffers @ [audio])))
                  (\<lambda>speechError. js_return audioBuffers))
      else js_return audioBuffers)"

fun speech_loop :: "('n, 'd) env \<Rightarrow> string list \<Rightarrow> bytes list \<Rightarrow> (bytes list, 'n) js" where
  "speech_loop E [] audioBuffers = js_return audioBuffers"
| "speech_loop E (line # lines) audioBuffers =
     js_bind (speech_step E line audioBuffers) (\<lambda>bufs. speech_loop E lines bufs)"

definition tempAudioPath :: string where
  "tempAudioPath = ''temp-podcast.mp3''"

definition writeFile :: "string \<Rightarrow> bytes \<Rightarrow> (unit, 'n) js" where
  "writeFile p data = (\<lambda>w. (Inr (), w\<lparr>files := (files w)(p \<mapsto> data)\<rparr>))"

definition readFileSync :: "string \<Rightarrow> (bytes, 'n) js" where
  "readFileSync p =
     (\<lambda>w. case files w p of
             None \<Rightarrow> (Inl (Error ''ENOENT: no such file or directory''), w)
           | Some data \<Rightarrow> (Inr data, w))"

definition unlink :: "string \<Rightarrow> (unit, 'n) js" where
  "unlink p =
     (\<lambda>w. case files w p of
             None \<Rightarrow> (Inl (Error ''ENOENT: no such file or directory''), w)
           | Some _ \<Rightarrow> (Inr (), w\<lparr>files := (files w)(p := None)\<rparr>))"

definition generatePodcastAudio :: "('n, 'd) env \<Rightarrow> string \<Rightarrow> (string, 'n) js" where
  "generatePodcastAudio E conversation =
     js_try
       (js_bind (speech_loop E (split CHR 0x0A conversation) [])
          (\<lambda>audioBuffers.
             if length audioBuffers = 0
             then js_throw (Error ''No audio was generated for any part of the conversation'')
             else js_bind (writeFile tempAudioPath (concat audioBuffers))
                    (\<lambda>_. js_return tempAudioPath)))
       (\<lambda>error. js_throw error)"

section \<open>Fetching a page\<close>

definition http_call :: "('n, 'd) env \<Rightarrow> string \<Rightarrow> (string, 'n) js" where
  "http_call E url = js_bind (emit (HttpGet url)) (\<lambda>_. remote (http_get E url))"

text \<open>
  \<open>axiosWithRetry\<close>, from the iteration \<open>i\<close> of its loop. The result is the body of the
  response; a loop that ends without an attempt returns \<open>undefined\<close> (\<open>None\<close>).
\<close>

function axiosWithRetry_from ::
  "('n, 'd) env \<Rightarrow> string \<Rightarrow> nat \<Rightarrow> nat \<Rightarrow> (string option, 'n) js" where
  "axiosWithRetry_from E url maxRetries i =
     (if i < maxRetries
      then js_try
             (js_bind (http_call E url) (\<lambda>response. js_return (Some response)))
             (\<lambda>error.
                if i = maxRetries - 1 then js_throw error
                else js_bind (emit (Sleep (1000 * (i + 1))))
                       (\<lambda>_. axiosWithRetry_from E url maxRetries (i + 1)))
      else js_return None)"
  by pat_completeness auto
termination
  by (relation "measure (\<lambda>(E, url, maxRetries, i). maxRetries - i)") auto

definition axiosWithRetry :: "('n, 'd) env \<Rightarrow> string \<Rightarrow> nat \<Rightarrow> (string option, 'n) js" where
  "axiosWithRetry E url maxRetries = axiosWithRetry_from E url maxRetries 0"

section \<open>Text generation\<close>

definition nl :: string where
  "nl = [CHR 0x0A]"

definition sp :: "nat \<Rightarrow> string" where
  "sp n = replicate n (CHR '' '')"

definition gemini_call :: "('n, 'd) env \<Rightarrow> string \<Rightarrow> (gemini_data, 'n) js" where
  "gemini_call E prompt = js_bind (emit (GeminiPost prompt)) (\<lambda>_. remote (gemini_post E prompt))"

text \<open>
  The text of the first candidate, trimmed; a response without a candidate is an
  \<open>Error\<close>, a candidate whose text cannot be read a \<open>TypeError\<close> with the runtime's
  message.
\<close>

definition candidate_text :: "gemini_data \<Rightarrow> (string, 'n) js" where
  "candidate_text data =
     (case data of
        Malformed \<Rightarrow> js_throw (Error ''Invalid response format from Gemini API'')
      | Unreadable m \<Rightarrow> js_throw (TypeError m)
      | Candidate t \<Rightarrow> js_return (trim t))"

definition summary_prompt :: "string \<Rightarrow> string" where
  "summary_prompt content =
     ''Create a clear and informative summary of the following content. '' @ nl
     @ sp 4 @ ''The summary should be well-structured and easy to read.'' @ nl
     @ sp 4 @ ''Include:'' @ nl
     @ sp 4 @ ''- A brief introduction to the topic'' @ nl
     @ sp 4 @ ''- Key points and main ideas'' @ nl
     @ sp 4 @ ''- Important facts and details'' @ nl
     @ sp 4 @ ''- A conclusion with main takeaways'' @ nl
     @ sp 4 @ nl
     @ sp 4 @ ''Keep it under 200 words but make it comprehensive.'' @ nl
     @ sp 4 @ ''Use a professional but engaging tone.'' @ nl
     @ sp 4 @ ''Format it as a well-written article, not a conversation.'' @ nl
     @ sp 4 @ ''Avoid using conversational language or dialogue.'' @ nl
     @ nl
     @ sp 4 @ ''Content to summarize:'' @ nl
     @ sp 4 @ content"

definition generateSummary :: "('n, 'd) env \<Rightarrow> string \<Rightarrow> (string, 'n) js" where
  "generateSummary E content =
     js_try (js_bind (gemini_call E (summary_prompt content)) candidate_text)
       (\<lambda>error. js_throw error)"

definition script_prompt :: "string \<Rightarrow> string \<Rightarrow> string" where
  "script_prompt text title =
     ''Create a natural conversation between two podcast hosts discussing this topic. '' @ nl
     @ sp 4 @ ''The hosts should be named Alex and Sarah.'' @ nl
     @ sp 4 @ ''Make it sound like a casual, engaging discussion.'' @ nl
     @ sp 4 @ ''Keep it brief (2-3 exchanges) but informative.'' @ nl
     @ sp 4 @ ''Format each line with the speaker's name followed by a colon.'' @ nl
     @ sp 4 @ ''Don't include any other text or formatting.'' @ nl
     @ nl
     @ sp 4 @ ''Topic: '' @ title @ nl
     @ sp 4 @ ''Content to discuss: '' @ text"

definition generateConversationalScript ::
  "('n, 'd) env \<Rightarrow> string \<Rightarrow> string \<Rightarrow> (string, 'n) js" where
  "generateConversationalScript E text title =
     js_try (js_bind (gemini_call E (script_prompt text title)) candidate_text)
       (\<lambda>error. js_throw error)"

section \<open>Content extraction\<close>

definition contentSelectors :: "string list" where
  "contentSelectors =
     [''article'', ''.article'', ''.post'', ''.entry'', ''main'', ''.content'', ''.post-content'',
      ''.entry-content'', ''#content'', ''.main-content'', ''.article-content'',
      ''.story-content'', ''.post-body'', ''.entry-body'']"

text \<open>
  The loop over the selectors, on the document and the content found so far. Removing
  the non-content elements below a selector changes the document for the selectors
  after it. The third component tells whether the loop left by \<open>break\<close>.
\<close>

fun select_content ::
  "('n, 'd) env \<Rightarrow> string list \<Rightarrow> 'd \<Rightarrow> string \<Rightarrow> 'd \<times> string \<times> bool" where
  "select_content E [] doc mainContent = (doc, mainContent, False)"
| "select_content E (selector # selectors) doc mainContent =
     (if sel_length E doc selector > 0
      then (let doc' = sel_remove_noise E doc selector;
                mainContent' = trim (sel_content_text E doc selector)
            in if length mainContent' > 100 then (doc', mainContent', True)
               else select_content E selectors doc' mainContent')
      else select_content E selectors doc mainContent)"

text \<open>The content chosen for a document: a region, or the body as the fallback.\<close>

definition main_content :: "('n, 'd) env \<Rightarrow> 'd \<Rightarrow> string" where
  "main_content E doc =
     (case select_content E contentSelectors doc [] of
        (doc', mainContent, _) \<Rightarrow>
          if mainContent = [] \<or> length mainContent < 100
          then trim (sel_content_text E doc' ''body'')
          else mainContent)"

text \<open>\<open>\w\<close>\<close>

definition is_word :: "char \<Rightarrow> bool" where
  "is_word c = (is_upper c \<or> is_lower c \<or> is_digit c \<or> c = CHR ''_'')"

text \<open>\<open>.replace(/\n+/g, ' ')\<close>\<close>

function newlines_to_space :: "string \<Rightarrow> string" where
  "newlines_to_space [] = []"
| "newlines_to_space (c # cs) =
     (if c = CHR 0x0A then CHR '' '' # newlines_to_space (dropWhile (\<lambda>d. d = CHR 0x0A) cs)
      else c # newlines_to_space cs)"
  by pat_completeness auto
termination
  by (relation "measure length") (auto simp: le_imp_less_Suc length_dropWhile_le)

text \<open>\<open>.replace(/[^\w\s.,!?-]/g, ' ')\<close>\<close>

definition noise_to_space :: "string \<Rightarrow> string" where
  "noise_to_space s =
     map (\<lambda>c. if is_word c \<or> is_space c \<or> c \<in> set ''.,!?-'' then c else CHR '' '') s"

definition normalize_content :: "string \<Rightarrow> string" where
  "normalize_content s = trim (noise_to_space (newlines_to_space (collapse_spaces s)))"

section \<open>The summary document\<close>

text \<open>
  The request body is parsed JSON, and the route checks only that \<open>bookmarks\<close> is a
  non-empty array. The value of \<open>bookmark.url\<close> is therefore a falsy value that is not a
  string (\<open>undefined\<close> when the property is missing, \<open>null\<close>, \<open>false\<close>, \<open>0\<close>), a string
  (the empty string is falsy too), or a truthy value that is not a string (a non-zero
  number, \<open>true\<close>, an object, an array). An element of the array is \<open>null\<close> (\<open>None\<close>) or
  a value whose properties can be read. The title stands for the string the template
  shows, the date for the value given to \<open>new Date\<close>.
\<close>

datatype js_url = Falsy | Text string | NotText

record bookmark =
  url :: js_url
  title :: "string option"
  dateAdded :: int

text \<open>
  The three fragments a bookmark can add to the summary, each with the address, the
  title and the date shown, and the summary or the message of the error.
\<close>

datatype fragment =
    Summarized string string string string
  | GenerationFailed string string string string
  | FetchFailed string string string string

definition fragment_html :: "nat \<Rightarrow> string \<Rightarrow> string \<Rightarrow> string \<Rightarrow> string \<Rightarrow> string" where
  \<open>fragment_html n href shown paragraph date =
     nl @ sp (n + 2)
       @ ''<div style="margin-bottom: 30px; padding: 20px; border: 1px solid #eee; border-radius: 8px;">''
     @ nl @ sp (n + 4) @ ''<h3 style="margin-top: 0; color: #2c3e50;">''
     @ nl @ sp (n + 6) @ ''<a href="'' @ href
       @ ''" style="color: #3498db; text-decoration: none;">'' @ shown @ ''</a>''
     @ nl @ sp (n + 4) @ ''</h3>''
     @ nl @ sp (n + 4) @ paragraph
     @ nl @ sp (n + 4) @ ''<small style="color: #7f8c8d;">Bookmarked on: '' @ date @ ''</small>''
     @ nl @ sp (n + 2) @ ''</div>''
     @ nl @ sp n\<close>

fun render :: "fragment \<Rightarrow> string" where
  \<open>render (Summarized href shown summarizedContent date) =
     fragment_html 8 href shown
       (''<p style="color: #34495e;">'' @ summarizedContent @ ''</p>'') date\<close>
| \<open>render (GenerationFailed href shown msg date) =
     fragment_html 8 href shown
       (''<p style="color: #e74c3c;">Unable to generate summary: '' @ msg @ ''</p>'') date\<close>
| \<open>render (FetchFailed href shown msg date) =
     fragment_html 6 href shown
       (''<p style="color: #e74c3c;">Unable to fetch content: '' @ msg @ ''</p>'') date\<close>

fun fragment_href :: "fragment \<Rightarrow> string" where
  "fragment_href (Summarized href _ _ _) = href"
| "fragment_href (GenerationFailed href _ _ _) = href"
| "fragment_href (FetchFailed href _ _ _) = href"

definition summary_header :: string where
  "summary_header = ''<h2>Your Bookmarked Content Summary</h2>''"

section \<open>The orchestrator\<close>

text \<open>\<open>a || b\<close> on a string that may be missing: the empty string is falsy.\<close>

definition or_else :: "string option \<Rightarrow> string \<Rightarrow> string" where
  "or_else a b = (case a of None \<Rightarrow> b | Some s \<Rightarrow> if s = [] then b else s)"

text \<open>
  The inner \<open>try\<close> of a bookmark: both generation calls, then the conversation is kept
  and the fragment of a success is added; an error of either call gives the fragment
  of a failed generation and no conversation.
\<close>

definition generate_block ::
  "('n, 'd) env \<Rightarrow> bookmark \<Rightarrow> string \<Rightarrow> string \<Rightarrow> string \<Rightarrow> (fragment \<times> string option, 'n) js" where
  "generate_block E b href shown mainContent =
     js_try
       (js_bind (generateSummary E (substring0 2000 mainContent))
          (\<lambda>summarizedContent.
             js_bind (generateConversationalScript E (substring0 2000 mainContent) shown)
               (\<lambda>conversation.
                  js_return
                    (Summarized href shown summarizedContent
                       (toLocaleDateString E (dateAdded b)),
                     Some conversation))))
       (\<lambda>error.
          js_return
            (GenerationFailed href shown (message error) (toLocaleDateString E (dateAdded b)),
             None))"

text \<open>The outer \<open>try\<close> of a bookmark: fetch, extraction, then the inner \<open>try\<close>.\<close>

definition bookmark_block ::
  "('n, 'd) env \<Rightarrow> bookmark \<Rightarrow> string \<Rightarrow> (fragment \<times> string option, 'n) js" where
  "bookmark_block E b href =
     js_bind (axiosWithRetry E href 3)
       (\<lambda>response.
          case response of
            None \<Rightarrow> js_throw (TypeError ''Cannot read properties of undefined (reading 'data')'')
          | Some data \<Rightarrow>
              (let doc = cheerio_load E data;
                   shown = or_else (title b) (or_else (Some (sel_text E doc ''title'')) ''Untitled'');
                   mainContent = normalize_content (main_content E doc)
               in if mainContent = [] \<or> length mainContent < 50
                  then js_throw (Error ''Not enough content extracted'')
                  else generate_block E b href shown mainContent))"

text \<open>
  The body of the loop over the bookmarks, on an element that is not \<open>null\<close>: \<open>None\<close> for
  a bookmark that is skipped, otherwise the fragment added to the summary and the
  conversation kept, if any. The guard \<open>!bookmark.url || !bookmark.url.startsWith('http')\<close>
  stands before the \<open>try\<close>: on a truthy value that is not a string, \<open>startsWith\<close> is
  \<open>undefined\<close> and the call throws.
\<close>

definition process_bookmark ::
  "('n, 'd) env \<Rightarrow> bookmark \<Rightarrow> ((fragment \<times> string option) option, 'n) js" where
  "process_bookmark E b =
     (case url b of
        Falsy \<Rightarrow> js_return None
      | NotText \<Rightarrow> js_throw (TypeError ''bookmark.url.startsWith is not a function'')
      | Text href \<Rightarrow>
          if href = [] \<or> \<not> startsWith href ''http'' then js_return None
          else js_try
                 (js_bind (bookmark_block E b href) (\<lambda>r. js_return (Some r)))
                 (\<lambda>error.
                    js_return
                      (Some (FetchFailed href (or_else (title b) ''Untitled'') (message error)
                               (toLocaleDateString E (dateAdded b)),
                             None))))"

text \<open>
  The loop over the bookmarks, on \<open>summary\<close> and \<open>allConversations\<close>. The list of the
  fragments added so far is carried along; the code has it only as the text of
  \<open>summary\<close>. Reading \<open>bookmark.url\<close> on a \<open>null\<close> element throws, outside any \<open>try\<close>.
\<close>

fun bookmark_loop ::
  "('n, 'd) env \<Rightarrow> bookmark option list \<Rightarrow> string \<Rightarrow> string list \<Rightarrow> fragment list \<Rightarrow>
     (string \<times> string list \<times> fragment list, 'n) js" where
  "bookmark_loop E [] summary allConversations fragments =
     js_return (summary, allConversations, fragments)"
| "bookmark_loop E (element # bookmarks) summary allConversations fragments =
     (case element of
        None \<Rightarrow> js_throw (TypeError ''Cannot read properties of null (reading 'url')'')
      | Some b \<Rightarrow>
          js_bind (process_bookmark E b)
            (\<lambda>r. case r of
                    None \<Rightarrow> bookmark_loop E bookmarks summary allConversations fragments
                  | Some (fragment, conversation) \<Rightarrow>
                      bookmark_loop E bookmarks (summary @ render fragment)
                        (allConversations @ (case conversation of None \<Rightarrow> [] | Some c \<Rightarrow> [c]))
                        (fragments @ [fragment])))"

record pipeline_result =
  summary :: string
  audioBuffer :: "bytes option"
  audioContentId :: string

text \<open>
  The last stage: the audio of all conversations. \<open>audioBuffer\<close> is assigned before the
  scratch file is removed, so a failure of the removal leaves the buffer in place.
\<close>

definition podcast_stage :: "('n, 'd) env \<Rightarrow> string list \<Rightarrow> (bytes option, 'n) js" where
  "podcast_stage E allConversations =
     (if length allConversations > 0
      then js_try
             (js_bind (generatePodcastAudio E (join (nl @ nl) allConversations))
                (\<lambda>path.
                   js_bind (readFileSync path)
                     (\<lambda>buffer.
                        js_try (js_bind (unlink path) (\<lambda>_. js_return (Some buffer)))
                          (\<lambda>error. js_return (Some buffer)))))
             (\<lambda>error. js_return None)
      else js_return None)"

definition generateSummaryAndPodcast ::
  "('n, 'd) env \<Rightarrow> bookmark option list \<Rightarrow> (pipeline_result, 'n) js" where
  "generateSummaryAndPodcast E bookmarks =
     js_bind (bookmark_loop E bookmarks summary_header [] [])
       (\<lambda>(summary, allConversations, fragments).
          js_bind (podcast_stage E allConversations)
            (\<lambda>audio.
               js_return
                 \<lparr>summary = summary, audioBuffer = audio, audioContentId = ''podcast-audio''\<rparr>))"


section \<open>Notions of the specification\<close>

text \<open>
  The segment of a line between its first colon and its second colon, or the end of
  the line when there is no second colon.
\<close>

definition between_colons :: "string \<Rightarrow> string" where
  "between_colons line =
     takeWhile (\<lambda>c. c \<noteq> CHR '':'') (tl (dropWhile (\<lambda>c. c \<noteq> CHR '':'') line))"

text \<open>The guard at the head of the loop over the bookmarks lets a bookmark through.\<close>

definition url_passes :: "bookmark \<Rightarrow> bool" where
  "url_passes b =
     (case url b of Text href \<Rightarrow> href \<noteq> [] \<and> startsWith href ''http'' | _ \<Rightarrow> False)"

definition href_of :: "bookmark \<Rightarrow> string" where
  "href_of b = (case url b of Text href \<Rightarrow> href | _ \<Rightarrow> [])"

text \<open>
  An element of the list is well typed when it is not \<open>null\<close> and its \<open>url\<close> is a string
  or a falsy value.
\<close>

definition well_typed :: "bookmark option \<Rightarrow> bool" where
  "well_typed element = (case element of None \<Rightarrow> False | Some b \<Rightarrow> url b \<noteq> NotText)"

text \<open>The addresses of the bookmarks that pass the guard, in the order of the list.\<close>

fun fetched_hrefs :: "bookmark option list \<Rightarrow> string list" where
  "fetched_hrefs [] = []"
| "fetched_hrefs (None # bs) = fetched_hrefs bs"
| "fetched_hrefs (Some b # bs) =
     (if url_passes b then href_of b # fetched_hrefs bs else fetched_hrefs bs)"

text \<open>
  The audio of a script, line by line: a blank line gives nothing, a line whose speech
  call fails gives nothing, every other line gives the audio of its call. The calls are
  made in order, each in the world the one before left.
\<close>

fun synthesized :: "('n, 'd) env \<Rightarrow> string list \<Rightarrow> 'n world \<Rightarrow> bytes list" where
  "synthesized E [] w = []"
| "synthesized E (line # lines) w =
     (if trim line = [] then synthesized E lines w
      else (case generateSpeech E (trim (between_colons line)) (startsWith line ''Alex:'') w of
              (Inl e, w') \<Rightarrow> synthesized E lines w'
            | (Inr audio, w') \<Rightarrow> audio # synthesized E lines w'))"


text \<open>The error fragments of a bookmark, and what extraction gives on a page.\<close>

definition fetch_failed :: "('n, 'd) env \<Rightarrow> bookmark \<Rightarrow> string \<Rightarrow> fragment" where
  "fetch_failed E b msg =
     FetchFailed (href_of b) (or_else (title b) ''Untitled'') msg
       (toLocaleDateString E (dateAdded b))"

definition extracted :: "('n, 'd) env \<Rightarrow> string \<Rightarrow> string" where
  "extracted E data = normalize_content (main_content E (cheerio_load E data))"

definition shown_title :: "('n, 'd) env \<Rightarrow> bookmark \<Rightarrow> string \<Rightarrow> string" where
  "shown_title E b data =
     or_else (title b) (or_else (Some (sel_text E (cheerio_load E data) ''title'')) ''Untitled'')"

definition generation_failed ::
  "('n, 'd) env \<Rightarrow> bookmark \<Rightarrow> string \<Rightarrow> string \<Rightarrow> fragment" where
  "generation_failed E b data msg =
     GenerationFailed (href_of b) (shown_title E b data) msg
       (toLocaleDateString E (dateAdded b))"

text \<open>The timer delays among the events, in order.\<close>

definition delays :: "event list \<Rightarrow> nat list" where
  "delays evs = concat (map (\<lambda>ev. case ev of Sleep ms \<Rightarrow> [ms] | _ \<Rightarrow> []) evs)"

text \<open>The world after a page request and after a timer delay.\<close>

definition after_request :: "('n, 'd) env \<Rightarrow> string \<Rightarrow> 'n world \<Rightarrow> 'n world" where
  "after_request E u w =
     w\<lparr>events := events w @ [HttpGet u], net := snd (http_get E u (net w))\<rparr>"

definition after_sleep :: "nat \<Rightarrow> 'n world \<Rightarrow> 'n world" where
  "after_sleep ms w = w\<lparr>events := events w @ [Sleep ms]\<rparr>"

text \<open>
  Deterministic collaborators answer by their arguments alone, whatever the state of
  the services. An asynchronous function has the same result in every world when what
  it returns or throws does not depend on the world it starts in.
\<close>

definition deterministic :: "('n, 'd) env \<Rightarrow> bool" where
  "deterministic E =
     ((\<forall>u n n'. fst (http_get E u n) = fst (http_get E u n'))
      \<and> (\<forall>p n n'. fst (gemini_post E p n) = fst (gemini_post E p n'))
      \<and> (\<forall>v t n n'. fst (tts_post E v t n) = fst (tts_post E v t n')))"

definition same_result :: "('a, 'n) js \<Rightarrow> bool" where
  "same_result m = (\<forall>w w'. fst (m w) = fst (m w'))"

section \<open>Stubbed collaborators\<close>

text \<open>
  Collaborators for running the pipeline on concrete inputs. The state of the services
  counts the page requests made so far, so a page can fail on some attempts and not on
  others; generation and speech answer by their arguments alone. A document is the list
  of its regions, each with its selector and its text.
\<close>

definition stub_env ::
  "(string \<Rightarrow> nat \<Rightarrow> js_error + string) \<Rightarrow> (string \<Rightarrow> js_error + gemini_data) \<Rightarrow>
   (string \<Rightarrow> string \<Rightarrow> js_error + bytes) \<Rightarrow> (string \<Rightarrow> (string \<times> string) list) \<Rightarrow>
   (nat, (string \<times> string) list) env" where
  "stub_env fetch generate speak parse =
     \<lparr>http_get = (\<lambda>u n. (fetch u n, Suc n)),
      gemini_post = (\<lambda>p n. (generate p, n)),
      tts_post = (\<lambda>v t n. (speak v t, n)),
      cheerio_load = parse,
      sel_length = (\<lambda>d s. length (filter (\<lambda>(k, _). k = s) d)),
      sel_remove_noise = (\<lambda>d s. d),
      sel_content_text = (\<lambda>d s. concat (map snd (filter (\<lambda>(k, _). k = s) d))),
      sel_text = (\<lambda>d s. concat (map snd (filter (\<lambda>(k, _). k = s) d))),
      toLocaleDateString = (\<lambda>t. ''1/1/2026'')\<rparr>"

definition world0 :: "nat world" where
  "world0 = \<lparr>net = 0, files = (\<lambda>_. None), events = []\<rparr>"

text \<open>
  No page can be fetched and no text generated; every speech request succeeds with two
  bytes.
\<close>

definition speaking_env :: "(nat, (string \<times> string) list) env" where
  "speaking_env =
     stub_env (\<lambda>u n. Inl (Error ''offline'')) (\<lambda>p. Inr Malformed) (\<lambda>v t. Inr [1, 2]) (\<lambda>d. [])"

text \<open>Every address serves the same page, whose only region is its body.\<close>

definition page_env ::
  "string \<Rightarrow> (string \<Rightarrow> js_error + gemini_data) \<Rightarrow> (string \<Rightarrow> string \<Rightarrow> js_error + bytes) \<Rightarrow>
   (nat, (string \<times> string) list) env" where
  "page_env page generate speak =
     stub_env (\<lambda>u n. Inr page) generate speak (\<lambda>data. [(''body'', data)])"

text \<open>Text generation that answers the summary prompt and fails on the script prompt.\<close>

definition summary_only :: "string \<Rightarrow> js_error + gemini_data" where
  "summary_only p =
     (if startsWith p ''Create a clear'' then Inr (Candidate ''A summary.'')
      else Inl (Error ''quota exceeded''))"

text \<open>Text generation that answers both prompts, the second with a script of two lines.\<close>

definition dialogue :: "string \<Rightarrow> js_error + gemini_data" where
  "dialogue p =
     (if startsWith p ''Create a clear'' then Inr (Candidate ''A summary.'')
      else Inr (Candidate (''Alex: Hi.'' @ nl @ ''Sarah: Yo.'')))"

definition long_page :: string where
  "long_page = ''Static sites are fast because each page is built ahead of time.''"

definition short_env :: "(nat, (string \<times> string) list) env" where
  "short_env = page_env ''Too short.'' dialogue (\<lambda>v t. Inr [1, 2])"

definition no_summary_env :: "(nat, (string \<times> string) list) env" where
  "no_summary_env = page_env long_page (\<lambda>p. Inl (Error ''quota exceeded'')) (\<lambda>v t. Inr [1, 2])"

definition no_script_env :: "(nat, (string \<times> string) list) env" where
  "no_script_env = page_env long_page summary_only (\<lambda>v t. Inr [1, 2])"

definition mute_env :: "(nat, (string \<times> string) list) env" where
  "mute_env = page_env long_page dialogue (\<lambda>v t. Inl (Error ''voice service down''))"

text \<open>One page can be fetched, the others cannot; generation and speech succeed.\<close>

definition scenario_env :: "(nat, (string \<times> string) list) env" where
  "scenario_env =
     stub_env
       (\<lambda>u n. if u = ''https://good.example/a'' then Inr long_page else Inl (Error ''offline''))
       dialogue (\<lambda>v t. Inr [1, 2]) (\<lambda>data. [(''body'', data)])"

definition good_bookmark :: bookmark where
  "good_bookmark = \<lparr>url = Text ''https://good.example/a'', title = Some ''A'', dateAdded = 0\<rparr>"

definition bad_bookmark :: bookmark where
  "bad_bookmark = \<lparr>url = Text ''https://bad.example/b'', title = Some ''B'', dateAdded = 0\<rparr>"

definition no_url_bookmark :: bookmark where
  "no_url_bookmark = \<lparr>url = Text ''not-a-url'', title = None, dateAdded = 0\<rparr>"


text \<open>A bookmark whose \<open>url\<close> is a number, as in \<open>{url: 12345, title: "N"}\<close>.\<close>

definition numeric_bookmark :: bookmark where
  "numeric_bookmark = \<lparr>url = NotText, title = Some ''N'', dateAdded = 0\<rparr>"

text \<open>
  Speech that fails on the text \<open>Yo.\<close> and answers the text \<open>Hi.\<close> with the byte 1 and
  any other text with the byte 2; no page can be fetched.
\<close>

definition choosy_env :: "(nat, (string \<times> string) list) env" where
  "choosy_env =
     stub_env (\<lambda>u n. Inl (Error ''offline'')) (\<lambda>p. Inr Malformed)
       (\<lambda>v t. if t = ''Yo.'' then Inl (Error ''voice service down'')
              else if t = ''Hi.'' then Inr [1] else Inr [2])
       (\<lambda>d. [])"

text \<open>
  A page whose \<open>article\<close> region has a text of exactly 100 characters, and whose body
  has that text and more.
\<close>

definition article_text :: string where
  "article_text =
     ''Static sites are fast because each page is built ahead of time and served as a plain file to readers''"

definition article_page :: "(string \<times> string) list" where
  "article_page =
     [(''title'', ''Static sites''),
      (''article'', article_text),
      (''body'',
       article_text @ '' Read the whole series on our blog, and tell us what you think of it.'')]"

section \<open>Asynchronous functions: basic facts\<close>

declare axiosWithRetry_from.simps [simp del]

lemma js_bind_return [simp]: "js_bind (js_return x) f = f x"
  by (simp add: js_bind_def js_return_def)

lemma js_bind_throw [simp]: "js_bind (js_throw e) f = js_throw e"
  by (simp add: js_bind_def js_throw_def)

lemma js_try_return [simp]: "js_try (js_return x) h = js_return x"
  by (simp add: js_try_def js_return_def)

lemma js_try_throw [simp]: "js_try (js_throw e) h = h e"
  by (simp add: js_try_def js_throw_def)

lemma js_try_rethrow [simp]: "js_try m (\<lambda>error. js_throw error) = m"
  by (auto simp: js_try_def js_throw_def fun_eq_iff split: prod.splits sum.splits)

lemma js_bind_run:
  "js_bind m f w =
     (case fst (m w) of Inl e \<Rightarrow> (Inl e, snd (m w)) | Inr x \<Rightarrow> f x (snd (m w)))"
  by (auto simp: js_bind_def split: prod.splits sum.splits)

lemma js_try_run:
  "js_try m h w =
     (case fst (m w) of Inl e \<Rightarrow> h e (snd (m w)) | Inr x \<Rightarrow> (Inr x, snd (m w)))"
  by (auto simp: js_try_def split: prod.splits sum.splits)

lemmas run_simps =
  js_bind_def js_try_def js_return_def js_throw_def emit_def remote_def
  stub_env_def world0_def nl_def trim_def is_space_def startsWith_def

subsection \<open>Results that do not depend on the world\<close>

lemma same_result_return: "same_result (js_return x)"
  by (simp add: same_result_def js_return_def)

lemma same_result_throw: "same_result (js_throw x)"
  by (simp add: same_result_def js_throw_def)

lemma same_result_emit: "same_result (emit x)"
  by (simp add: same_result_def emit_def)

lemma same_result_remote:
  "(\<And>n n'. fst (f n) = fst (f n')) \<Longrightarrow> same_result (remote f)"
  by (simp add: same_result_def remote_def split: prod.splits) (metis fst_conv)

lemma same_result_bind:
  assumes "same_result m" and "\<And>x. same_result (f x)"
  shows "same_result (js_bind m f)"
  unfolding same_result_def
proof (intro allI)
  fix w w'
  have m: "fst (m w) = fst (m w')"
    using assms(1) by (simp add: same_result_def)
  show "fst (js_bind m f w) = fst (js_bind m f w')"
  proof (cases "fst (m w)")
    case (Inl e)
    then show ?thesis using m by (simp add: js_bind_run)
  next
    case (Inr x)
    then show ?thesis using m assms(2) [of x] by (simp add: js_bind_run same_result_def)
  qed
qed

lemma same_result_try:
  assumes "same_result m" and "\<And>e. same_result (h e)"
  shows "same_result (js_try m h)"
  unfolding same_result_def
proof (intro allI)
  fix w w'
  have m: "fst (m w) = fst (m w')"
    using assms(1) by (simp add: same_result_def)
  show "fst (js_try m h w) = fst (js_try m h w')"
  proof (cases "fst (m w)")
    case (Inl e)
    then show ?thesis using m assms(2) [of e] by (simp add: js_try_run same_result_def)
  next
    case (Inr x)
    then show ?thesis using m by (simp add: js_try_run)
  qed
qed

lemmas same_result_intros =
  same_result_return same_result_throw same_result_emit same_result_bind same_result_try

section \<open>Lines of a script\<close>

lemma split_takeWhile:
  "split c s = takeWhile (\<lambda>x. x \<noteq> c) s #
     (case dropWhile (\<lambda>x. x \<noteq> c) s of [] \<Rightarrow> [] | _ # r \<Rightarrow> split c r)"
  by (induction s) (auto split: list.splits)

lemma split_without_separator: "c \<notin> set s \<Longrightarrow> split c s = [s]"
  by (induction s) auto

lemma split_second:
  assumes "c \<in> set s"
  shows "\<exists>rest. split c s = takeWhile (\<lambda>x. x \<noteq> c) s #
           takeWhile (\<lambda>x. x \<noteq> c) (tl (dropWhile (\<lambda>x. x \<noteq> c) s)) # rest"
proof -
  from assms obtain r where d: "dropWhile (\<lambda>x. x \<noteq> c) s = c # r"
    by (metis (mono_tags, lifting) dropWhile_eq_Nil_conv hd_dropWhile list.collapse)
  have "split c s = takeWhile (\<lambda>x. x \<noteq> c) s # split c r"
    by (subst split_takeWhile) (simp add: d)
  moreover have "\<exists>rest. split c r = takeWhile (\<lambda>x. x \<noteq> c) r # rest"
    by (subst split_takeWhile) simp
  ultimately show ?thesis by (auto simp: d)
qed

lemma line_text_between:
  "CHR '':'' \<in> set line \<Longrightarrow> line_text line = Inr (trim (between_colons line))"
  using split_second [of "CHR '':''" line] by (auto simp: line_text_def between_colons_def)

lemma line_text_no_colon:
  "CHR '':'' \<notin> set line \<Longrightarrow> \<exists>m. line_text line = Inl (TypeError m)"
  by (simp add: line_text_def split_without_separator)

lemma generateSpeech_events:
  "events (snd (generateSpeech E text isAlex w)) =
     events w @ [TtsPost (voiceId isAlex) (formatText text)]"
  by (auto simp: generateSpeech_def js_bind_def emit_def remote_def split: prod.splits sum.splits)

lemma generateSpeech_result:
  "fst (generateSpeech E text isAlex w) =
     fst (tts_post E (voiceId isAlex) (formatText text) (net w))"
  by (simp add: generateSpeech_def js_bind_run emit_def remote_def split: prod.splits sum.splits)

lemma speech_step_events:
  assumes "trim line \<noteq> []" and "CHR '':'' \<in> set line"
  shows "events (snd (speech_step E line bufs w)) =
     events w @ [TtsPost (voiceId (startsWith line ''Alex:''))
                   (formatText (trim (between_colons line)))]"
  using assms
    generateSpeech_events [of E "trim (between_colons line)" "startsWith line ''Alex:''" w]
  by (auto simp: speech_step_def line_text_between js_try_def js_bind_def js_return_def
      split: prod.splits sum.splits)

lemma speech_step_all_fail:
  assumes "\<forall>v t n. isl (fst (tts_post E v t n))"
    and "fst (speech_step E line bufs w) = Inr bufs'"
  shows "bufs' = bufs"
proof -
  have f: "\<And>t a w r. fst (generateSpeech E t a w) \<noteq> Inr r"
    using assms(1) by (metis generateSpeech_result sum.disc(2))
  show ?thesis
    using assms(2)
    by (auto simp: speech_step_def Let_def js_try_run js_bind_run js_return_def js_throw_def f
        split: sum.splits if_splits)
qed

lemma speech_loop_all_fail:
  assumes "\<forall>v t n. isl (fst (tts_post E v t n))"
  shows "fst (speech_loop E lines bufs w) = Inr bufs' \<Longrightarrow> bufs' = bufs"
proof (induction lines arbitrary: w)
  case Nil
  then show ?case by (simp add: js_return_def)
next
  case (Cons line lines)
  show ?case
  proof (cases "fst (speech_step E line bufs w)")
    case (Inl e)
    then show ?thesis using Cons.prems by (simp add: js_bind_run)
  next
    case (Inr b1)
    then have "b1 = bufs" using speech_step_all_fail [OF assms] by blast
    then show ?thesis using Cons.prems Inr Cons.IH by (simp add: js_bind_run)
  qed
qed

lemma same_result_generateSpeech:
  "deterministic E \<Longrightarrow> same_result (generateSpeech E text isAlex)"
  unfolding generateSpeech_def
  by (intro same_result_intros same_result_remote) (simp add: deterministic_def)

lemma same_result_speech_step:
  "deterministic E \<Longrightarrow> same_result (speech_step E line bufs)"
  unfolding speech_step_def Let_def
  by (auto intro!: same_result_intros same_result_generateSpeech split: sum.splits)

lemma same_result_speech_loop:
  "deterministic E \<Longrightarrow> same_result (speech_loop E lines bufs)"
  by (induction lines arbitrary: bufs) (auto intro!: same_result_intros same_result_speech_step)

text \<open>The step of the loop on a non-blank line with a colon, by the result of its call.\<close>

lemma speech_step_run:
  assumes "trim line \<noteq> []" and "CHR '':'' \<in> set line"
  shows "speech_step E line bufs w =
     (case generateSpeech E (trim (between_colons line)) (startsWith line ''Alex:'') w of
        (Inl e, w') \<Rightarrow> (Inr bufs, w')
      | (Inr audio, w') \<Rightarrow> (Inr (bufs @ [audio]), w'))"
  using assms
  by (simp add: speech_step_def line_text_between js_try_def js_bind_def js_return_def
      split: prod.splits sum.splits)

lemma speech_loop_synthesized:
  assumes "\<forall>line \<in> set lines. trim line \<noteq> [] \<longrightarrow> CHR '':'' \<in> set line"
  shows "fst (speech_loop E lines bufs w) = Inr (bufs @ synthesized E lines w)"
  using assms
proof (induction lines arbitrary: bufs w)
  case Nil
  then show ?case by (simp add: js_return_def)
next
  case (Cons line lines)
  show ?case
  proof (cases "trim line = []")
    case True
    then show ?thesis using Cons by (simp add: speech_step_def js_bind_run js_return_def)
  next
    case False
    then have c: "CHR '':'' \<in> set line" using Cons.prems by simp
    obtain r w' where g:
      "generateSpeech E (trim (between_colons line)) (startsWith line ''Alex:'') w = (r, w')"
      by (cases "generateSpeech E (trim (between_colons line)) (startsWith line ''Alex:'') w")
    show ?thesis
    proof (cases r)
      case (Inl e)
      then show ?thesis
        using False g Cons.IH [of bufs w'] Cons.prems
        by (simp add: speech_step_run [OF False c] js_bind_run)
    next
      case (Inr audio)
      then show ?thesis
        using False g Cons.IH [of "bufs @ [audio]" w'] Cons.prems
        by (simp add: speech_step_run [OF False c] js_bind_run)
    qed
  qed
qed

section \<open>Fetching with retries\<close>

lemma http_call_run:
  "http_call E u w = (fst (http_get E u (net w)), after_request E u w)"
  by (auto simp: http_call_def after_request_def js_bind_def emit_def remote_def
      split: prod.splits)

lemma events_after [simp]:
  "events (after_request E u w) = events w @ [HttpGet u]"
  "events (after_sleep ms w) = events w @ [Sleep ms]"
  "net (after_sleep ms w) = net w"
  by (simp_all add: after_request_def after_sleep_def)

text \<open>One iteration of the loop of \<open>axiosWithRetry\<close>.\<close>

lemma retry_step:
  assumes "i < maxRetries"
  shows "axiosWithRetry_from E u maxRetries i w =
     (case fst (http_get E u (net w)) of
        Inr response \<Rightarrow> (Inr (Some response), after_request E u w)
      | Inl e \<Rightarrow>
          if i = maxRetries - 1 then (Inl e, after_request E u w)
          else axiosWithRetry_from E u maxRetries (i + 1)
                 (after_sleep (1000 * (i + 1)) (after_request E u w)))"
  using assms
  by (subst axiosWithRetry_from.simps)
     (simp add: js_try_run js_bind_run http_call_run emit_def after_sleep_def js_return_def
       js_throw_def split: sum.splits)

lemma retry_all_fail:
  assumes "\<forall>n. isl (fst (http_get E u n))"
  shows "isl (fst (axiosWithRetry E u 3 w)) \<and>
     events (snd (axiosWithRetry E u 3 w)) =
       events w @ [HttpGet u, Sleep 1000, HttpGet u, Sleep 2000, HttpGet u]"
proof -
  have f: "\<And>n r. fst (http_get E u n) \<noteq> Inr r"
    using assms by (metis sum.disc(2))
  show ?thesis
    by (simp add: axiosWithRetry_def retry_step f split: sum.splits)
qed

lemma retry_events:
  "events (snd (axiosWithRetry E u 3 w)) \<in>
     {events w @ [HttpGet u],
      events w @ [HttpGet u, Sleep 1000, HttpGet u],
      events w @ [HttpGet u, Sleep 1000, HttpGet u, Sleep 2000, HttpGet u]}"
  by (simp add: axiosWithRetry_def retry_step split: sum.splits)

lemma same_result_http_call:
  "deterministic E \<Longrightarrow> same_result (http_call E u)"
  unfolding http_call_def
  by (intro same_result_intros same_result_remote) (simp add: deterministic_def)

lemma same_result_retry:
  "deterministic E \<Longrightarrow> same_result (axiosWithRetry_from E u maxRetries i)"
proof (induction E u maxRetries i rule: axiosWithRetry_from.induct)
  case (1 E u maxRetries i)
  show ?case
    apply (subst axiosWithRetry_from.simps)
    using 1 by (auto intro!: same_result_intros same_result_http_call)
qed

lemmas stub_simps =
  run_simps speaking_env_def page_env_def axiosWithRetry_def retry_step after_request_def
  after_sleep_def

section \<open>One bookmark\<close>

lemma generate_block_run:
  "generate_block E b href shown mc w =
     (case fst (generateSummary E (substring0 2000 mc) w) of
        Inl e \<Rightarrow>
          (Inr (GenerationFailed href shown (message e) (toLocaleDateString E (dateAdded b)),
                None),
           snd (generateSummary E (substring0 2000 mc) w))
      | Inr s \<Rightarrow>
          (let w1 = snd (generateSummary E (substring0 2000 mc) w) in
           case fst (generateConversationalScript E (substring0 2000 mc) shown w1) of
             Inl e \<Rightarrow>
               (Inr (GenerationFailed href shown (message e)
                       (toLocaleDateString E (dateAdded b)), None),
                snd (generateConversationalScript E (substring0 2000 mc) shown w1))
           | Inr c \<Rightarrow>
               (Inr (Summarized href shown s (toLocaleDateString E (dateAdded b)), Some c),
                snd (generateConversationalScript E (substring0 2000 mc) shown w1))))"
  by (simp add: generate_block_def js_try_run js_bind_run js_return_def Let_def
      split: sum.splits)

lemma generate_block_result:
  assumes "generate_block E b href shown mc w = (r, w')"
  shows "\<exists>f c. r = Inr (f, c) \<and> fragment_href f = href
           \<and> (\<forall>h t m d. f \<noteq> FetchFailed h t m d)"
  using assms by (auto simp: generate_block_run Let_def split: sum.splits)

lemma bookmark_block_run:
  "bookmark_block E b href w =
     (case fst (axiosWithRetry E href 3 w) of
        Inl e \<Rightarrow> (Inl e, snd (axiosWithRetry E href 3 w))
      | Inr None \<Rightarrow>
          (Inl (TypeError ''Cannot read properties of undefined (reading 'data')''),
           snd (axiosWithRetry E href 3 w))
      | Inr (Some data) \<Rightarrow>
          (let doc = cheerio_load E data;
               shown = or_else (title b)
                         (or_else (Some (sel_text E doc ''title'')) ''Untitled'');
               mainContent = normalize_content (main_content E doc)
           in if length mainContent < 50
              then (Inl (Error ''Not enough content extracted''),
                    snd (axiosWithRetry E href 3 w))
              else generate_block E b href shown mainContent
                     (snd (axiosWithRetry E href 3 w))))"
  by (auto simp: bookmark_block_def js_bind_run js_throw_def Let_def
      split: sum.splits option.splits)

lemma bookmark_block_result:
  assumes "bookmark_block E b href w = (Inr (f, c), w')"
  shows "fragment_href f = href \<and> (\<forall>h t m d. f \<noteq> FetchFailed h t m d)"
proof (cases "fst (axiosWithRetry E href 3 w)")
  case (Inl e)
  then show ?thesis using assms by (simp add: bookmark_block_run)
next
  case (Inr response)
  show ?thesis
  proof (cases response)
    case None
    then show ?thesis using assms Inr by (simp add: bookmark_block_run)
  next
    case (Some data)
    define mc where "mc = normalize_content (main_content E (cheerio_load E data))"
    show ?thesis
    proof (cases "length mc < 50")
      case True
      then show ?thesis using assms Inr Some by (simp add: bookmark_block_run mc_def)
    next
      case False
      then have "\<exists>shown. generate_block E b href shown mc (snd (axiosWithRetry E href 3 w)) =
          (Inr (f, c), w')"
        using assms Inr Some by (auto simp: bookmark_block_run mc_def Let_def)
      then show ?thesis using generate_block_result by blast
    qed
  qed
qed

lemma process_bookmark_skip:
  "\<not> url_passes b \<Longrightarrow> url b \<noteq> NotText \<Longrightarrow> process_bookmark E b w = (Inr None, w)"
  by (auto simp: process_bookmark_def url_passes_def js_return_def split: js_url.splits)

lemma process_bookmark_run:
  assumes "url_passes b"
  shows "process_bookmark E b w =
     (case fst (bookmark_block E b (href_of b) w) of
        Inl e \<Rightarrow>
          (Inr (Some (fetch_failed E b (message e), None)),
           snd (bookmark_block E b (href_of b) w))
      | Inr r \<Rightarrow> (Inr (Some r), snd (bookmark_block E b (href_of b) w)))"
  using assms
  by (auto simp: process_bookmark_def url_passes_def href_of_def fetch_failed_def js_try_run
      js_bind_run js_return_def split: js_url.splits sum.splits)

lemma process_bookmark_fragment:
  assumes "url_passes b"
  shows "\<exists>fragment conversation w'.
     process_bookmark E b w = (Inr (Some (fragment, conversation)), w')
     \<and> fragment_href fragment = href_of b"
proof (cases "fst (bookmark_block E b (href_of b) w)")
  case (Inl e)
  then show ?thesis using assms by (simp add: process_bookmark_run fetch_failed_def)
next
  case (Inr r)
  obtain f c where r: "r = (f, c)" by (cases r)
  have "bookmark_block E b (href_of b) w = (Inr (f, c), snd (bookmark_block E b (href_of b) w))"
    using Inr r by (metis prod.collapse)
  then have "fragment_href f = href_of b" using bookmark_block_result by blast
  then show ?thesis using assms Inr r by (simp add: process_bookmark_run)
qed

lemma process_bookmark_returns:
  assumes "url b \<noteq> NotText"
  shows "\<exists>r. fst (process_bookmark E b w) = Inr r"
proof (cases "url_passes b")
  case True
  then show ?thesis using process_bookmark_fragment [of b E w] by auto
next
  case False
  then show ?thesis using assms by (simp add: process_bookmark_skip)
qed

lemma process_bookmark_generated:
  assumes "url_passes b" and "fst (axiosWithRetry E (href_of b) 3 w) = Inr (Some data)"
    and "\<not> length (extracted E data) < 50"
  shows "process_bookmark E b w =
     (case generate_block E b (href_of b) (shown_title E b data) (extracted E data)
             (snd (axiosWithRetry E (href_of b) 3 w)) of
        (r, w') \<Rightarrow> (Inr (Some (case r of Inr x \<Rightarrow> x)), w'))"
proof -
  obtain r w' where g:
    "generate_block E b (href_of b) (shown_title E b data) (extracted E data)
       (snd (axiosWithRetry E (href_of b) 3 w)) = (r, w')"
    by (cases "generate_block E b (href_of b) (shown_title E b data) (extracted E data)
             (snd (axiosWithRetry E (href_of b) 3 w))")
  then obtain f c where r: "r = Inr (f, c)" using generate_block_result by blast
  have "bookmark_block E b (href_of b) w = (r, w')"
    using assms(2,3) g by (simp add: bookmark_block_run Let_def extracted_def shown_title_def)
  then show ?thesis using assms(1) g r by (simp add: process_bookmark_run)
qed

text \<open>
  What the step of a bookmark that passes the guard does with each kind of error: an
  error of the fetch, a content that is too short, an error of the summary call and an
  error of the script call each end in an error fragment with the message of the error
  and in no conversation.
\<close>

lemma errors_become_fragments:
  "(url_passes b \<and> fst (axiosWithRetry E (href_of b) 3 w) = Inl e
      \<longrightarrow> fst (process_bookmark E b w) = Inr (Some (fetch_failed E b (message e), None)))
   \<and> (url_passes b \<and> fst (axiosWithRetry E (href_of b) 3 w) = Inr (Some data)
         \<and> length (extracted E data) < 50
        \<longrightarrow> fst (process_bookmark E b w) =
              Inr (Some (fetch_failed E b ''Not enough content extracted'', None)))
   \<and> (url_passes b \<and> fst (axiosWithRetry E (href_of b) 3 w) = Inr (Some data)
         \<and> \<not> length (extracted E data) < 50
         \<and> fst (generateSummary E (substring0 2000 (extracted E data))
                  (snd (axiosWithRetry E (href_of b) 3 w))) = Inl e
        \<longrightarrow> fst (process_bookmark E b w) =
              Inr (Some (generation_failed E b data (message e), None)))
   \<and> (url_passes b \<and> fst (axiosWithRetry E (href_of b) 3 w) = Inr (Some data)
         \<and> \<not> length (extracted E data) < 50
         \<and> fst (generateSummary E (substring0 2000 (extracted E data))
                  (snd (axiosWithRetry E (href_of b) 3 w))) = Inr s
         \<and> fst (generateConversationalScript E (substring0 2000 (extracted E data))
                  (shown_title E b data)
                  (snd (generateSummary E (substring0 2000 (extracted E data))
                          (snd (axiosWithRetry E (href_of b) 3 w))))) = Inl e
        \<longrightarrow> fst (process_bookmark E b w) =
              Inr (Some (generation_failed E b data (message e), None)))"
proof (intro conjI impI)
  assume "url_passes b \<and> fst (axiosWithRetry E (href_of b) 3 w) = Inl e"
  then show "fst (process_bookmark E b w) = Inr (Some (fetch_failed E b (message e), None))"
    by (simp add: process_bookmark_run bookmark_block_run)
next
  assume "url_passes b \<and> fst (axiosWithRetry E (href_of b) 3 w) = Inr (Some data)
         \<and> length (extracted E data) < 50"
  then show "fst (process_bookmark E b w) =
              Inr (Some (fetch_failed E b ''Not enough content extracted'', None))"
    by (simp add: process_bookmark_run bookmark_block_run extracted_def)
next
  assume "url_passes b \<and> fst (axiosWithRetry E (href_of b) 3 w) = Inr (Some data)
         \<and> \<not> length (extracted E data) < 50
         \<and> fst (generateSummary E (substring0 2000 (extracted E data))
                  (snd (axiosWithRetry E (href_of b) 3 w))) = Inl e"
  then show "fst (process_bookmark E b w) =
              Inr (Some (generation_failed E b data (message e), None))"
    by (simp add: process_bookmark_generated generate_block_run generation_failed_def
        split: prod.splits)
next
  assume "url_passes b \<and> fst (axiosWithRetry E (href_of b) 3 w) = Inr (Some data)
         \<and> \<not> length (extracted E data) < 50
         \<and> fst (generateSummary E (substring0 2000 (extracted E data))
                  (snd (axiosWithRetry E (href_of b) 3 w))) = Inr s
         \<and> fst (generateConversationalScript E (substring0 2000 (extracted E data))
                  (shown_title E b data)
                  (snd (generateSummary E (substring0 2000 (extracted E data))
                          (snd (axiosWithRetry E (href_of b) 3 w))))) = Inl e"
  then show "fst (process_bookmark E b w) =
              Inr (Some (generation_failed E b data (message e), None))"
    by (simp add: process_bookmark_generated generate_block_run generation_failed_def Let_def
        split: prod.splits)
qed

lemma same_result_gemini_call:
  "deterministic E \<Longrightarrow> same_result (gemini_call E p)"
  unfolding gemini_call_def
  by (intro same_result_intros same_result_remote) (simp add: deterministic_def)

lemma same_result_candidate_text: "same_result (candidate_text d)"
  unfolding candidate_text_def
  by (auto intro!: same_result_intros split: gemini_data.splits)

lemma same_result_generate_block:
  "deterministic E \<Longrightarrow> same_result (generate_block E b href shown mc)"
  unfolding generate_block_def generateSummary_def generateConversationalScript_def
  by (intro same_result_intros same_result_gemini_call same_result_candidate_text)

lemma same_result_bookmark_block:
  "deterministic E \<Longrightarrow> same_result (bookmark_block E b href)"
  unfolding bookmark_block_def axiosWithRetry_def Let_def
  by (auto intro!: same_result_intros same_result_retry same_result_generate_block
      split: option.splits)

lemma same_result_process_bookmark:
  "deterministic E \<Longrightarrow> same_result (process_bookmark E b)"
  unfolding process_bookmark_def
  by (auto intro!: same_result_intros same_result_bookmark_block split: js_url.splits)

section \<open>The whole batch\<close>

lemma bookmark_loop_returns:
  assumes "\<forall>element \<in> set bms. well_typed element"
  shows "\<exists>fs cs w'.
     bookmark_loop E bms s0 c0 f0 w = (Inr (s0 @ concat (map render fs), cs, f0 @ fs), w')
     \<and> map fragment_href fs = fetched_hrefs bms"
  using assms
proof (induction bms arbitrary: s0 c0 f0 w)
  case Nil
  then show ?case by (simp add: js_return_def)
next
  case (Cons element bms)
  then obtain b where e: "element = Some b" and t: "url b \<noteq> NotText"
    by (auto simp: well_typed_def split: option.splits)
  have rest: "\<forall>element \<in> set bms. well_typed element"
    using Cons.prems by simp
  show ?case
  proof (cases "url_passes b")
    case False
    then show ?thesis using Cons.IH [OF rest, of s0 c0 f0 w] e t
      by (simp add: js_bind_run process_bookmark_skip)
  next
    case True
    then obtain fr cv w1 where p: "process_bookmark E b w = (Inr (Some (fr, cv)), w1)"
      and h: "fragment_href fr = href_of b"
      using process_bookmark_fragment by blast
    obtain fs cs w' where
      "bookmark_loop E bms (s0 @ render fr)
         (c0 @ (case cv of None \<Rightarrow> [] | Some c \<Rightarrow> [c])) (f0 @ [fr]) w1 =
         (Inr ((s0 @ render fr) @ concat (map render fs), cs, (f0 @ [fr]) @ fs), w')"
      and "map fragment_href fs = fetched_hrefs bms"
      using Cons.IH [OF rest] by blast
    then show ?thesis using True p h e
      by (intro exI [of _ "fr # fs"] exI [of _ cs] exI [of _ w']) (simp add: js_bind_run)
  qed
qed

lemma same_result_bookmark_loop:
  "deterministic E \<Longrightarrow> same_result (bookmark_loop E bms s c f)"
  by (induction bms arbitrary: s c f)
     (auto intro!: same_result_intros same_result_process_bookmark split: option.splits)

text \<open>The audio of a run, from the buffers of the loop over the lines.\<close>

lemma podcast_stage_run:
  "fst (podcast_stage E cs w) =
     Inr (if cs = [] then None
          else (case fst (speech_loop E (split CHR 0x0A (join (nl @ nl) cs)) [] w) of
                  Inl e \<Rightarrow> None
                | Inr bufs \<Rightarrow> if bufs = [] then None else Some (concat bufs)))"
  by (simp add: podcast_stage_def generatePodcastAudio_def js_try_run js_bind_run js_return_def
      js_throw_def writeFile_def readFileSync_def unlink_def split: sum.splits)

lemma same_result_podcast_stage:
  assumes "deterministic E"
  shows "same_result (podcast_stage E cs)"
  unfolding same_result_def
proof (intro allI)
  fix w w'
  have "fst (speech_loop E (split CHR 0x0A (join (nl @ nl) cs)) [] w) =
        fst (speech_loop E (split CHR 0x0A (join (nl @ nl) cs)) [] w')"
    using same_result_speech_loop [OF assms] by (simp add: same_result_def)
  then show "fst (podcast_stage E cs w) = fst (podcast_stage E cs w')"
    by (simp only: podcast_stage_run)
qed

lemma same_result_pipeline:
  assumes "deterministic E"
  shows "same_result (generateSummaryAndPodcast E bms)"
  unfolding generateSummaryAndPodcast_def
  by (intro same_result_bind same_result_bookmark_loop [OF assms])
     (auto intro!: same_result_intros same_result_podcast_stage [OF assms])

lemma pipeline_run:
  "fst (generateSummaryAndPodcast E bms w) =
     (case bookmark_loop E bms summary_header [] [] w of
        (Inl e, w1) \<Rightarrow> Inl e
      | (Inr (s, cs, fs), w1) \<Rightarrow>
          (case fst (podcast_stage E cs w1) of
             Inl e \<Rightarrow> Inl e
           | Inr a \<Rightarrow> Inr \<lparr>summary = s, audioBuffer = a, audioContentId = ''podcast-audio''\<rparr>))"
  by (simp add: generateSummaryAndPodcast_def js_bind_run js_return_def
      split: sum.splits prod.splits)

lemma pipeline_returns:
  assumes "\<forall>element \<in> set bms. well_typed element"
  shows "\<exists>s cs fs w1 a.
     bookmark_loop E bms summary_header [] [] w = (Inr (s, cs, fs), w1)
     \<and> fst (podcast_stage E cs w1) = Inr a
     \<and> fst (generateSummaryAndPodcast E bms w) =
         Inr \<lparr>summary = s, audioBuffer = a, audioContentId = ''podcast-audio''\<rparr>"
proof -
  obtain fs cs w1 where
    l: "bookmark_loop E bms summary_header [] [] w =
          (Inr (summary_header @ concat (map render fs), cs, [] @ fs), w1)"
    using bookmark_loop_returns [OF assms, of E summary_header "[]" "[]" w] by blast
  obtain a where a: "fst (podcast_stage E cs w1) = Inr a"
    by (simp add: podcast_stage_run)
  show ?thesis using l a by (simp add: pipeline_run)
qed

lemmas page_simps =
  main_content_def contentSelectors_def normalize_content_def noise_to_space_def is_word_def
  is_upper_def is_lower_def is_digit_def extracted_def

lemmas gemini_simps =
  generateSummary_def generateConversationalScript_def gemini_call_def candidate_text_def
  summary_only_def summary_prompt_def script_prompt_def substring0_def sp_def

lemmas speech_simps =
  generateSpeech_def voiceId_def formatText_def is_stop_def is_upper_def is_lower_def
  name_colon_def between_colons_def

section \<open>Claims\<close>

text \<open>
  C1, at a script whose second line has no colon. The claim has the line dropped and
  the third line synthesized; the code throws at the second line, outside the \<open>try\<close>
  of the speech call, so \<open>generatePodcastAudio\<close> fails after the first line's request
  and the third line is never synthesized.
\<close>

theorem malformed_line_aborts_audio:
  "fst (generatePodcastAudio speaking_env
          (''Alex: Hi.'' @ nl @ ''Welcome everyone'' @ nl @ ''Sarah: Bye.'') world0) =
     Inl (TypeError ''Cannot read properties of undefined (reading 'trim')'')
   \<and> events (snd (generatePodcastAudio speaking_env
          (''Alex: Hi.'' @ nl @ ''Welcome everyone'' @ nl @ ''Sarah: Bye.'') world0)) =
     [TtsPost ''EXAVITQu4vr4xnSDxMaL'' ''Hi.'']"
  by (simp add: generatePodcastAudio_def speaking_env_def speech_step_def line_text_def
      generateSpeech_def voiceId_def formatText_def is_stop_def is_upper_def is_lower_def
      name_colon_def run_simps)




text \<open>
  C3, at a list whose second bookmark has a number as its \<open>url\<close>. The claim has the run
  return a result whatever a single bookmark is; the code evaluates the guard before
  the \<open>try\<close> of the bookmark, the call of \<open>startsWith\<close> on the number throws, and the
  whole run fails with that error after the first bookmark was fetched and summarized.
\<close>

theorem ill_typed_bookmark_fails_run:
  "fst (generateSummaryAndPodcast scenario_env
          [Some good_bookmark, Some numeric_bookmark] world0) =
     Inl (TypeError ''bookmark.url.startsWith is not a function'')
   \<and> HttpGet ''https://good.example/a'' \<in>
       set (events (snd (generateSummaryAndPodcast scenario_env
          [Some good_bookmark, Some numeric_bookmark] world0)))"
  by (simp add: generateSummaryAndPodcast_def process_bookmark_def bookmark_block_def
      generate_block_def good_bookmark_def numeric_bookmark_def scenario_env_def dialogue_def
      long_page_def or_else_def page_simps gemini_simps stub_simps)

text \<open>
  C4, as stated, at a script whose first line fails synthesis and whose second line has
  no colon: the remaining third line is not synthesized, the loop throws at the second
  line after the one failed request.
\<close>

theorem line_after_failed_call_counterexample:
  "isl (fst (generateSpeech choosy_env ''Yo.'' (startsWith ''Sarah: Yo.'' ''Alex:'') world0))
   \<and> fst (speech_loop choosy_env [''Sarah: Yo.'', ''Welcome everyone'', ''Alex: Bye.''] []
            world0) =
       Inl (TypeError ''Cannot read properties of undefined (reading 'trim')'')
   \<and> events (snd (speech_loop choosy_env [''Sarah: Yo.'', ''Welcome everyone'', ''Alex: Bye.'']
                     [] world0)) =
       [TtsPost ''21m00Tcm4TlvDq8ikWAM'' ''Yo.'']"
  by (simp add: speech_step_def line_text_def choosy_env_def speech_simps run_simps)

text \<open>
  C4, amended. For every script whose non-blank lines all contain a colon, the loop
  over the lines never throws and collects, in order, the audio of exactly the non-blank
  lines whose speech call succeeds: a line whose call fails gives nothing and the lines
  after it are still synthesized. The audio stage never throws; on such a script its
  audio is null when no line's call succeeds and the concatenation of the collected
  audio otherwise. On a well typed bookmark list the run returns a result whose audio
  is what the audio stage gives on the conversations collected.
\<close>

theorem failed_lines_are_skipped:
  "((\<forall>line \<in> set lines. trim line \<noteq> [] \<longrightarrow> CHR '':'' \<in> set line) \<longrightarrow>
      fst (speech_loop E lines audioBuffers w) =
        Inr (audioBuffers @ synthesized E lines w))
   \<and> (\<exists>audio. fst (podcast_stage E allConversations w) = Inr audio)
   \<and> (allConversations \<noteq> []
        \<and> (\<forall>line \<in> set (split CHR 0x0A (join (nl @ nl) allConversations)).
              trim line \<noteq> [] \<longrightarrow> CHR '':'' \<in> set line) \<longrightarrow>
      fst (podcast_stage E allConversations w) =
        Inr (if synthesized E (split CHR 0x0A (join (nl @ nl) allConversations)) w = []
             then None
             else Some (concat
                    (synthesized E (split CHR 0x0A (join (nl @ nl) allConversations)) w))))
   \<and> ((\<forall>element \<in> set bookmarks. well_typed element) \<longrightarrow>
        (\<exists>s cs fs w1 r.
            bookmark_loop E bookmarks summary_header [] [] w = (Inr (s, cs, fs), w1)
            \<and> fst (generateSummaryAndPodcast E bookmarks w) = Inr r
            \<and> fst (podcast_stage E cs w1) = Inr (audioBuffer r)))"
proof (intro conjI impI)
  assume "\<forall>line \<in> set lines. trim line \<noteq> [] \<longrightarrow> CHR '':'' \<in> set line"
  then show "fst (speech_loop E lines audioBuffers w) =
        Inr (audioBuffers @ synthesized E lines w)"
    by (rule speech_loop_synthesized)
next
  show "\<exists>audio. fst (podcast_stage E allConversations w) = Inr audio"
    by (simp add: podcast_stage_run)
next
  assume h: "allConversations \<noteq> []
        \<and> (\<forall>line \<in> set (split CHR 0x0A (join (nl @ nl) allConversations)).
              trim line \<noteq> [] \<longrightarrow> CHR '':'' \<in> set line)"
  then have "fst (speech_loop E (split CHR 0x0A (join (nl @ nl) allConversations)) [] w) =
      Inr ([] @ synthesized E (split CHR 0x0A (join (nl @ nl) allConversations)) w)"
    using speech_loop_synthesized by blast
  then show "fst (podcast_stage E allConversations w) =
        Inr (if synthesized E (split CHR 0x0A (join (nl @ nl) allConversations)) w = []
             then None
             else Some (concat
                    (synthesized E (split CHR 0x0A (join (nl @ nl) allConversations)) w)))"
    using h by (simp add: podcast_stage_run)
next
  assume t: "\<forall>element \<in> set bookmarks. well_typed element"
  obtain s cs fs w1 a where
    "bookmark_loop E bookmarks summary_header [] [] w = (Inr (s, cs, fs), w1)"
    and "fst (podcast_stage E cs w1) = Inr a"
    and "fst (generateSummaryAndPodcast E bookmarks w) =
         Inr \<lparr>summary = s, audioBuffer = a, audioContentId = ''podcast-audio''\<rparr>"
    using pipeline_returns [OF t, of E w] by blast
  then show "\<exists>s cs fs w1 r.
            bookmark_loop E bookmarks summary_header [] [] w = (Inr (s, cs, fs), w1)
            \<and> fst (generateSummaryAndPodcast E bookmarks w) = Inr r
            \<and> fst (podcast_stage E cs w1) = Inr (audioBuffer r)"
    by (intro exI [of _ s] exI [of _ cs] exI [of _ fs] exI [of _ w1]
        exI [of _ "\<lparr>summary = s, audioBuffer = a, audioContentId = ''podcast-audio''\<rparr>"])
       simp
qed

theorem failed_lines_are_skipped_witness:
  "CHR '':'' \<in> set ''Alex: Hi.'' \<and> CHR '':'' \<in> set ''Sarah: Yo.''
   \<and> CHR '':'' \<in> set ''Alex: Bye.''
   \<and> fst (speech_loop choosy_env [''Alex: Hi.'', ''Sarah: Yo.'', ''Alex: Bye.''] [] world0) =
       Inr [[1], [2]]
   \<and> fst (podcast_stage choosy_env
            [''Alex: Hi.'' @ nl @ ''Sarah: Yo.'' @ nl @ ''Alex: Bye.''] world0) =
       Inr (Some [1, 2])
   \<and> fst (podcast_stage choosy_env [''Sarah: Yo.''] world0) = Inr None
   \<and> well_typed (Some good_bookmark)
   \<and> (\<exists>r. fst (generateSummaryAndPodcast mute_env [Some good_bookmark] world0) = Inr r)"
proof -
  have c: "\<forall>line \<in> set [''Alex: Hi.'', ''Sarah: Yo.'', ''Alex: Bye.''].
      trim line \<noteq> [] \<longrightarrow> CHR '':'' \<in> set line"
    by simp
  have s3: "split CHR 0x0A (join (nl @ nl)
      [''Alex: Hi.'' @ nl @ ''Sarah: Yo.'' @ nl @ ''Alex: Bye.'']) =
      [''Alex: Hi.'', ''Sarah: Yo.'', ''Alex: Bye.'']"
    by (simp add: nl_def)
  have s1: "split CHR 0x0A (join (nl @ nl) [''Sarah: Yo.'']) = [''Sarah: Yo.'']"
    by (simp add: nl_def)
  have y3: "synthesized choosy_env [''Alex: Hi.'', ''Sarah: Yo.'', ''Alex: Bye.''] world0 =
      [[1], [2]]"
    by (simp add: choosy_env_def speech_simps run_simps)
  have y1: "synthesized choosy_env [''Sarah: Yo.''] world0 = []"
    by (simp add: choosy_env_def speech_simps run_simps)
  have t: "\<forall>element \<in> set [Some good_bookmark]. well_typed element"
    by (simp add: well_typed_def good_bookmark_def)
  have a: "fst (speech_loop choosy_env [''Alex: Hi.'', ''Sarah: Yo.'', ''Alex: Bye.''] []
      world0) = Inr [[1], [2]]"
    using failed_lines_are_skipped
      [where lines = "[''Alex: Hi.'', ''Sarah: Yo.'', ''Alex: Bye.'']" and E = choosy_env
         and audioBuffers = "[]" and w = world0, THEN conjunct1] c y3
    by simp
  have b: "fst (podcast_stage choosy_env
      [''Alex: Hi.'' @ nl @ ''Sarah: Yo.'' @ nl @ ''Alex: Bye.''] world0) = Inr (Some [1, 2])"
    using failed_lines_are_skipped
      [where allConversations = "[''Alex: Hi.'' @ nl @ ''Sarah: Yo.'' @ nl @ ''Alex: Bye.'']"
         and E = choosy_env and w = world0, THEN conjunct2, THEN conjunct2, THEN conjunct1,
         unfolded s3]
      c y3
    by simp
  have n: "fst (podcast_stage choosy_env [''Sarah: Yo.''] world0) = Inr None"
    using failed_lines_are_skipped
      [where allConversations = "[''Sarah: Yo.'']" and E = choosy_env and w = world0,
        THEN conjunct2, THEN conjunct2, THEN conjunct1, unfolded s1]
      y1
    by simp
  have r: "\<exists>r. fst (generateSummaryAndPodcast mute_env [Some good_bookmark] world0) = Inr r"
    using failed_lines_are_skipped
      [where bookmarks = "[Some good_bookmark]" and E = mute_env and w = world0,
        THEN conjunct2, THEN conjunct2, THEN conjunct2]
      t
    by blast
  show ?thesis using a b n t r by simp
qed

text \<open>
  C5, as stated, at a page whose every request fails: the delays observed are 1 s and
  2 s; no delay of 3 s follows the third failure.
\<close>

theorem retry_third_delay_counterexample:
  "isl (fst (axiosWithRetry speaking_env ''https://bad.example/b'' 3 world0))
   \<and> delays (events (snd (axiosWithRetry speaking_env ''https://bad.example/b'' 3 world0))) =
       [1000, 2000]
   \<and> Sleep 3000 \<notin>
       set (events (snd (axiosWithRetry speaking_env ''https://bad.example/b'' 3 world0)))"
  by (simp add: delays_def stub_simps)

text \<open>
  C5, amended. A fetch makes at most 3 attempts, with a delay of 1 s between the first
  and the second and of 2 s between the second and the third. When the fetch fails, it
  has made exactly 3 attempts, with these two delays between them and none after the
  last. A page served at the first attempt is returned after that one request, and a
  page whose every request fails makes the fetch fail.
\<close>

theorem retry_three_attempts_two_delays:
  "(isl (fst (axiosWithRetry E u 3 w)) \<longrightarrow>
      events (snd (axiosWithRetry E u 3 w)) =
        events w @ [HttpGet u, Sleep 1000, HttpGet u, Sleep 2000, HttpGet u])
   \<and> events (snd (axiosWithRetry E u 3 w)) \<in>
       {events w @ [HttpGet u],
        events w @ [HttpGet u, Sleep 1000, HttpGet u],
        events w @ [HttpGet u, Sleep 1000, HttpGet u, Sleep 2000, HttpGet u]}
   \<and> (fst (http_get E u (net w)) = Inr page \<longrightarrow>
        axiosWithRetry E u 3 w = (Inr (Some page), after_request E u w))
   \<and> ((\<forall>n. isl (fst (http_get E u n))) \<longrightarrow> isl (fst (axiosWithRetry E u 3 w)))"
proof (intro conjI impI)
  assume "isl (fst (axiosWithRetry E u 3 w))"
  then show "events (snd (axiosWithRetry E u 3 w)) =
        events w @ [HttpGet u, Sleep 1000, HttpGet u, Sleep 2000, HttpGet u]"
    by (auto simp: axiosWithRetry_def retry_step split: sum.splits)
next
  show "events (snd (axiosWithRetry E u 3 w)) \<in>
       {events w @ [HttpGet u],
        events w @ [HttpGet u, Sleep 1000, HttpGet u],
        events w @ [HttpGet u, Sleep 1000, HttpGet u, Sleep 2000, HttpGet u]}"
    by (rule retry_events)
next
  assume "fst (http_get E u (net w)) = Inr page"
  then show "axiosWithRetry E u 3 w = (Inr (Some page), after_request E u w)"
    by (simp add: axiosWithRetry_def retry_step)
next
  assume "\<forall>n. isl (fst (http_get E u n))"
  then show "isl (fst (axiosWithRetry E u 3 w))"
    using retry_all_fail by blast
qed

theorem retry_three_attempts_two_delays_witness:
  "isl (fst (axiosWithRetry speaking_env ''https://bad.example/b'' 3 world0))
   \<and> events (snd (axiosWithRetry speaking_env ''https://bad.example/b'' 3 world0)) =
       [HttpGet ''https://bad.example/b'', Sleep 1000, HttpGet ''https://bad.example/b'',
        Sleep 2000, HttpGet ''https://bad.example/b'']
   \<and> fst (http_get short_env ''https://good.example/a'' (net world0)) = Inr ''Too short.''
   \<and> fst (axiosWithRetry short_env ''https://good.example/a'' 3 world0) =
       Inr (Some ''Too short.'')
   \<and> events (snd (axiosWithRetry short_env ''https://good.example/a'' 3 world0)) =
       [HttpGet ''https://good.example/a'']
   \<and> (\<forall>n. isl (fst (http_get speaking_env ''https://bad.example/b'' n)))"
proof -
  have h1: "isl (fst (axiosWithRetry speaking_env ''https://bad.example/b'' 3 world0))"
    by (simp add: stub_simps)
  have h3: "fst (http_get short_env ''https://good.example/a'' (net world0)) =
      Inr ''Too short.''"
    by (simp add: short_env_def page_env_def stub_env_def)
  have h4: "\<forall>n. isl (fst (http_get speaking_env ''https://bad.example/b'' n))"
    by (simp add: speaking_env_def stub_env_def)
  show ?thesis
    using
      retry_three_attempts_two_delays
        [of speaking_env "''https://bad.example/b''" world0 "''''"]
      retry_three_attempts_two_delays
        [of short_env "''https://good.example/a''" world0 "''Too short.''"]
      h1 h3 h4
    by (simp add: world0_def)
qed

text \<open>
  C6. For a bookmark that passes the guard and whose page is fetched, the step ends in
  the fragment of a failed extraction, with no conversation, if and only if the
  normalized content of the page has fewer than 50 characters.
\<close>

theorem extraction_fails_iff_short:
  assumes "url_passes b" and "fst (axiosWithRetry E (href_of b) 3 w) = Inr (Some data)"
  shows "fst (process_bookmark E b w) =
           Inr (Some (fetch_failed E b ''Not enough content extracted'', None))
         \<longleftrightarrow> length (normalize_content (main_content E (cheerio_load E data))) < 50"
proof (cases "length (normalize_content (main_content E (cheerio_load E data))) < 50")
  case True
  then show ?thesis using assms
    by (simp add: process_bookmark_run bookmark_block_run)
next
  case False
  obtain r w' where g: "bookmark_block E b (href_of b) w = (r, w')"
    by (cases "bookmark_block E b (href_of b) w")
  then have "\<exists>shown mc w1. generate_block E b (href_of b) shown mc w1 = (r, w')"
    using False assms(2) by (auto simp: bookmark_block_run Let_def)
  then obtain f c where "r = Inr (f, c)" and "\<forall>h t m d. f \<noteq> FetchFailed h t m d"
    using generate_block_result by blast
  then show ?thesis using False assms(1) g
    by (simp add: process_bookmark_run fetch_failed_def)
qed

theorem extraction_fails_iff_short_witness:
  "url_passes bad_bookmark
   \<and> fst (axiosWithRetry short_env (href_of bad_bookmark) 3 world0) = Inr (Some ''Too short.'')
   \<and> length (normalize_content (main_content short_env (cheerio_load short_env ''Too short.'')))
       < 50
   \<and> fst (process_bookmark short_env bad_bookmark world0) =
       Inr (Some (fetch_failed short_env bad_bookmark ''Not enough content extracted'', None))"
proof -
  have h1: "url_passes bad_bookmark"
    by (simp add: url_passes_def bad_bookmark_def startsWith_def)
  have h2: "fst (axiosWithRetry short_env (href_of bad_bookmark) 3 world0) =
      Inr (Some ''Too short.'')"
    by (simp add: href_of_def bad_bookmark_def short_env_def stub_simps)
  have s: "length (normalize_content (main_content short_env
      (cheerio_load short_env ''Too short.''))) < 50"
    by (simp add: short_env_def page_simps stub_simps)
  show ?thesis
    using extraction_fails_iff_short [OF h1 h2] h1 h2 s by simp
qed

text \<open>
  C7, at a page whose only candidate region, \<open>article\<close>, has a text of exactly 100
  characters. No candidate exceeds 100 characters, so the loop over the selectors ends
  without \<open>break\<close> and the claim has the body used; the code keeps the text of the
  region, since the fallback is taken only below 100 characters.
\<close>

theorem region_of_100_characters_blocks_fallback:
  "length article_text = 100
   \<and> select_content speaking_env contentSelectors article_page [] =
       (article_page, article_text, False)
   \<and> main_content speaking_env article_page = article_text
   \<and> trim (sel_content_text speaking_env article_page ''body'') \<noteq> article_text"
  by (simp add: main_content_def contentSelectors_def article_page_def article_text_def
      stub_simps)

text \<open>
  C8. With deterministic collaborators, two runs on the same bookmark list end the same
  way, whatever the worlds they start in; in particular a second run that starts in the
  world the first one left. On a well typed list both return the same result, which has
  the same summary text and the same audio bytes.
\<close>

theorem pipeline_idempotent:
  assumes "deterministic E"
  shows "fst (generateSummaryAndPodcast E bookmarks w) =
           fst (generateSummaryAndPodcast E bookmarks w')
         \<and> ((\<forall>element \<in> set bookmarks. well_typed element) \<longrightarrow>
              (\<exists>r. fst (generateSummaryAndPodcast E bookmarks w) = Inr r
                   \<and> fst (generateSummaryAndPodcast E bookmarks w') = Inr r))"
proof -
  have eq: "fst (generateSummaryAndPodcast E bookmarks w) =
      fst (generateSummaryAndPodcast E bookmarks w')"
    using same_result_pipeline [OF assms] by (simp add: same_result_def)
  have "\<exists>r. fst (generateSummaryAndPodcast E bookmarks w) = Inr r"
    if "\<forall>element \<in> set bookmarks. well_typed element"
    using pipeline_returns [OF that, of E w] by blast
  then show ?thesis using eq by auto
qed

theorem pipeline_idempotent_witness:
  "deterministic scenario_env
   \<and> well_typed (Some good_bookmark) \<and> well_typed (Some no_url_bookmark)
   \<and> well_typed (Some bad_bookmark)
   \<and> (\<exists>r. fst (generateSummaryAndPodcast scenario_env
               [Some good_bookmark, Some no_url_bookmark, Some bad_bookmark] world0) = Inr r
          \<and> fst (generateSummaryAndPodcast scenario_env
               [Some good_bookmark, Some no_url_bookmark, Some bad_bookmark]
               (snd (generateSummaryAndPodcast scenario_env
                       [Some good_bookmark, Some no_url_bookmark, Some bad_bookmark]
                       world0))) = Inr r)"
proof -
  have d: "deterministic scenario_env"
    by (simp add: deterministic_def scenario_env_def stub_env_def)
  have t: "\<forall>element \<in> set [Some good_bookmark, Some no_url_bookmark, Some bad_bookmark].
      well_typed element"
    by (simp add: well_typed_def good_bookmark_def no_url_bookmark_def bad_bookmark_def)
  show ?thesis
    using pipeline_idempotent [OF d] d t by auto
qed

text \<open>
  C9. For every non-blank line with at least one colon, the text handed to
  \<open>generateSpeech\<close> is the segment of the line between the first colon and the second
  colon (or the end of the line), trimmed: the step of the loop is the guarded speech
  call on that text, and the one speech request it makes carries that text, reformatted.
  Nothing after a second colon reaches the speech call.
\<close>

theorem speech_text_is_second_segment:
  assumes "trim line \<noteq> []" and "CHR '':'' \<in> set line"
  shows "speech_step E line audioBuffers =
           js_try
             (js_bind (generateSpeech E (trim (between_colons line)) (startsWith line ''Alex:''))
                (\<lambda>audio. js_return (audioBuffers @ [audio])))
             (\<lambda>speechError. js_return audioBuffers)
         \<and> events (snd (speech_step E line audioBuffers w)) =
             events w @ [TtsPost (voiceId (startsWith line ''Alex:''))
                           (formatText (trim (between_colons line)))]"
  using assms speech_step_events [OF assms, of E audioBuffers w]
  by (simp add: speech_step_def line_text_between)

theorem speech_text_is_second_segment_witness:
  "trim ''Alex: Hi there: and more'' \<noteq> [] \<and> CHR '':'' \<in> set ''Alex: Hi there: and more''
   \<and> events (snd (speech_step speaking_env ''Alex: Hi there: and more'' [] world0)) =
       [TtsPost ''EXAVITQu4vr4xnSDxMaL'' ''Hi there'']"
proof -
  have h1: "trim ''Alex: Hi there: and more'' \<noteq> []"
    by (simp add: trim_def is_space_def)
  have h2: "CHR '':'' \<in> set ''Alex: Hi there: and more''"
    by simp
  have f: "formatText (trim (between_colons ''Alex: Hi there: and more'')) = ''Hi there''"
    by (simp add: formatText_def between_colons_def trim_def is_space_def is_stop_def
        is_upper_def is_lower_def name_colon_def)
  show ?thesis
    using speech_text_is_second_segment [OF h1 h2, of speaking_env "[]" world0, THEN conjunct2]
      h1 f
    by (simp add: voiceId_def startsWith_def world0_def)
qed

text \<open>
  C10, as stated, at a non-blank line without a colon: the line does not start with
  \<open>Alex:\<close>, and it is not synthesized with the second voice; the step throws before any
  speech request.
\<close>

theorem voice_without_colon_counterexample:
  "trim ''hello'' \<noteq> [] \<and> \<not> startsWith ''hello'' ''Alex:''
   \<and> fst (speech_step speaking_env ''hello'' [] world0) =
       Inl (TypeError ''Cannot read properties of undefined (reading 'trim')'')
   \<and> events (snd (speech_step speaking_env ''hello'' [] world0)) = []"
  by (simp add: speech_step_def line_text_def run_simps)

text \<open>
  C10, amended. For every non-blank line with at least one colon, the one speech request
  of the line uses the voice \<open>EXAVITQu4vr4xnSDxMaL\<close> if the line starts with \<open>Alex:\<close> and
  the voice \<open>21m00Tcm4TlvDq8ikWAM\<close> otherwise, whatever the speaker prefix is.
\<close>

theorem voice_follows_alex_prefix:
  assumes "trim line \<noteq> []" and "CHR '':'' \<in> set line"
  shows "\<exists>text. events (snd (speech_step E line audioBuffers w)) =
           events w @ [TtsPost (if startsWith line ''Alex:'' then ''EXAVITQu4vr4xnSDxMaL''
                                else ''21m00Tcm4TlvDq8ikWAM'') text]"
  using speech_step_events [OF assms, of E audioBuffers w] by (simp add: voiceId_def)

theorem voice_follows_alex_prefix_witness:
  "trim ''Sara: Hello'' \<noteq> [] \<and> CHR '':'' \<in> set ''Sara: Hello''
   \<and> (\<exists>text. events (snd (speech_step speaking_env ''Sara: Hello'' [] world0)) =
         [TtsPost ''21m00Tcm4TlvDq8ikWAM'' text])"
proof -
  have h1: "trim ''Sara: Hello'' \<noteq> []"
    by (simp add: trim_def is_space_def)
  have h2: "CHR '':'' \<in> set ''Sara: Hello''"
    by simp
  show ?thesis
    using voice_follows_alex_prefix [OF h1 h2, of speaking_env "[]" world0] h1
    by (simp add: startsWith_def world0_def)
qed

end
